theory Spec2Isabelle
  imports Complex_Main
begin

section \<open>Product API: schemas, persistence and HTTP handlers\<close>

text \<open>
  A shallow embedding of the Product service: the request schemas of
  \<^verbatim>\<open>schemas.py\<close>, the table of \<^verbatim>\<open>models.py\<close>, the five operations of
  \<^verbatim>\<open>crud.py\<close> and the route functions of \<^verbatim>\<open>main.py\<close>.  The relational store
  is an explicit state that every operation takes and returns; exceptions are
  the left summand of a sum type.
\<close>

subsection \<open>Python values\<close>

text \<open>
  \<^verbatim>\<open>decimal.Decimal\<close>, finite values only (the schema's decimal parser refuses
  the others): the triple of \<^verbatim>\<open>as_tuple()\<close>, with the digit tuple held as the
  number it spells.
\<close>

record Decimal =
  negative :: bool
  coefficient :: nat
  exponent :: int

text \<open>Length of the digit tuple: the coefficient has no leading zero, and zero is one digit.\<close>

fun num_digits :: "nat \<Rightarrow> nat" where
  "num_digits n = (if n < 10 then 1 else Suc (num_digits (n div 10)))"

declare num_digits.simps [simp del]

definition dec_value :: "Decimal \<Rightarrow> rat" where
  "dec_value d =
     (if negative d then - 1 else 1) * of_nat (coefficient d) *
     (if 0 \<le> exponent d then 10 ^ nat (exponent d) else 1 / 10 ^ nat (- exponent d))"

text \<open>
  \<^verbatim>\<open>str.strip()\<close>: the characters for which \<^verbatim>\<open>str.isspace\<close> holds, among the
  code points below 256.  A \<^typ>\<open>char\<close> stands for one code point, so \<^const>\<open>length\<close>
  is Python's \<^verbatim>\<open>len\<close>.
\<close>

definition isspace :: "char \<Rightarrow> bool" where
  "isspace c = (of_char c \<in> {9, 10, 11, 12, 13, 28, 29, 30, 31, 32, 133, 160 :: nat})"

definition strip :: "string \<Rightarrow> string" where
  "strip s = rev (dropWhile isspace (rev (dropWhile isspace s)))"

subsection \<open>Schemas (schemas.py)\<close>

text \<open>A field of a JSON request body: missing, \<^verbatim>\<open>null\<close>, or a value.\<close>

datatype 'a field = Absent | Null | Given 'a

record payload =
  j_name :: "string field"
  j_description :: "string field"
  j_price :: "Decimal field"

datatype validation_error =
    MissingError
  | NoneIsNotAllowedError
  | AnyStrMinLengthError
  | AnyStrMaxLengthError
  | NumberNotGtError
  | DecimalMaxDigitsError
  | DecimalMaxPlacesError
  | DecimalWholeDigitsError
  | ValueError

text \<open>\<^verbatim>\<open>constr(strip_whitespace=True, min_length=1, max_length=255)\<close>: strip, then check the length.\<close>

definition constr :: "string \<Rightarrow> validation_error + string" where
  "constr v =
     (let s = strip v in
      if length s < 1 then Inl AnyStrMinLengthError
      else if length s > 255 then Inl AnyStrMaxLengthError
      else Inr s)"

text \<open>
  \<^verbatim>\<open>condecimal(gt=0, max_digits=10, decimal_places=2)\<close>: the bound first, then the
  digit counts of the constrained decimal type, which reads them off the digit
  tuple and the exponent.
\<close>

definition digits_decimals :: "Decimal \<Rightarrow> nat \<times> nat" where
  "digits_decimals d =
     (if exponent d \<ge> 0 then (num_digits (coefficient d) + nat (exponent d), 0)
      else if nat (- exponent d) > num_digits (coefficient d)
        then (nat (- exponent d), nat (- exponent d))
      else (num_digits (coefficient d), nat (- exponent d)))"

definition condecimal :: "Decimal \<Rightarrow> validation_error + Decimal" where
  "condecimal v =
     (if \<not> dec_value v > 0 then Inl NumberNotGtError
      else
        let (digits, decimals) = digits_decimals v;
            whole_digits = digits - decimals
        in if digits > 10 then Inl DecimalMaxDigitsError
           else if decimals > 2 then Inl DecimalMaxPlacesError
           else if whole_digits > 10 - 2 then Inl DecimalWholeDigitsError
           else Inr v)"

text \<open>The \<^verbatim>\<open>description_length\<close> validator of both schemas.\<close>

definition description_length :: "string option \<Rightarrow> validation_error + string option" where
  "description_length v =
     (if v \<noteq> None \<and> length (the v) > 10000 then Inl ValueError else Inr v)"

text \<open>A required field (\<^verbatim>\<open>Field(...)\<close>) and an optional one (\<^verbatim>\<open>Optional[...] = Field(None)\<close>).\<close>

definition required :: "('a \<Rightarrow> validation_error + 'b) \<Rightarrow> 'a field \<Rightarrow> validation_error + 'b" where
  "required validate f =
     (case f of Absent \<Rightarrow> Inl MissingError
      | Null \<Rightarrow> Inl NoneIsNotAllowedError
      | Given v \<Rightarrow> validate v)"

definition optional :: "('a \<Rightarrow> validation_error + 'b) \<Rightarrow> 'a field \<Rightarrow> validation_error + 'b option" where
  "optional validate f =
     (case f of Absent \<Rightarrow> Inr None
      | Null \<Rightarrow> Inr None
      | Given v \<Rightarrow> (case validate v of Inl e \<Rightarrow> Inl e | Inr w \<Rightarrow> Inr (Some w)))"

definition optional_description :: "string field \<Rightarrow> validation_error + string option" where
  "optional_description f =
     (case optional Inr f of Inl e \<Rightarrow> Inl e | Inr v \<Rightarrow> description_length v)"

record ProductCreate =
  c_name :: string
  c_description :: "string option"
  c_price :: Decimal

record ProductUpdate =
  u_name :: "string option"
  u_description :: "string option"
  u_price :: "Decimal option"

text \<open>Parsing a body into a schema: the errors of all fields, or the model.\<close>

definition errors_of :: "(validation_error + 'a) \<Rightarrow> validation_error list" where
  "errors_of r = (case r of Inl e \<Rightarrow> [e] | Inr _ \<Rightarrow> [])"

definition parse_ProductCreate :: "payload \<Rightarrow> validation_error list + ProductCreate" where
  "parse_ProductCreate j =
     (case (required constr (j_name j), optional_description (j_description j),
            required condecimal (j_price j)) of
        (Inr n, Inr d, Inr p) \<Rightarrow> Inr \<lparr>c_name = n, c_description = d, c_price = p\<rparr>
      | (n, d, p) \<Rightarrow> Inl (errors_of n @ errors_of d @ errors_of p))"

definition parse_ProductUpdate :: "payload \<Rightarrow> validation_error list + ProductUpdate" where
  "parse_ProductUpdate j =
     (case (optional constr (j_name j), optional_description (j_description j),
            optional condecimal (j_price j)) of
        (Inr n, Inr d, Inr p) \<Rightarrow> Inr \<lparr>u_name = n, u_description = d, u_price = p\<rparr>
      | (n, d, p) \<Rightarrow> Inl (errors_of n @ errors_of d @ errors_of p))"

subsection \<open>The table (models.py) and the store\<close>

record Product =
  p_id :: int
  p_name :: string
  p_description :: "string option"
  p_price :: Decimal
  p_created_at :: nat
  p_updated_at :: nat

text \<open>
  Python exceptions, in one type so that an \<^verbatim>\<open>except\<close> clause is a test on the
  class of what was raised.  \<^verbatim>\<open>IntegrityError\<close>, \<^verbatim>\<open>DataError\<close> and
  \<^verbatim>\<open>OperationalError\<close> are the store's (all of them \<^verbatim>\<open>SQLAlchemyError\<close>);
  every constructor is an \<^verbatim>\<open>Exception\<close>.
\<close>

datatype exc =
    ProductAlreadyExistsError string
  | IntegrityError
  | DataError
  | OperationalError
  | HTTPException nat string

fun is_ProductAlreadyExistsError :: "exc \<Rightarrow> bool" where
  "is_ProductAlreadyExistsError (ProductAlreadyExistsError _) = True"
| "is_ProductAlreadyExistsError _ = False"

fun is_IntegrityError :: "exc \<Rightarrow> bool" where
  "is_IntegrityError IntegrityError = True"
| "is_IntegrityError _ = False"

fun is_SQLAlchemyError :: "exc \<Rightarrow> bool" where
  "is_SQLAlchemyError IntegrityError = True"
| "is_SQLAlchemyError DataError = True"
| "is_SQLAlchemyError OperationalError = True"
| "is_SQLAlchemyError _ = False"

fun str :: "exc \<Rightarrow> string" where
  "str (ProductAlreadyExistsError m) = m"
| "str (HTTPException _ d) = d"
| "str _ = []"

text \<open>
  The table and its id sequence.  What the session cannot see is an input:
  the transaction timestamp \<^verbatim>\<open>now()\<close>, and what happens at the store between
  this session's reads and its commit: nothing, other sessions committing
  rows with the given names, or the store failing.
\<close>

record db =
  rows :: "Product list"
  id_seq :: int

datatype store_event = Quiet | Racing "string list" | Failure

record env =
  now :: nat
  event :: store_event

definition racing :: "env \<Rightarrow> string list" where
  "racing e = (case event e of Racing ns \<Rightarrow> ns | _ \<Rightarrow> [])"

text \<open>
  Column \<^verbatim>\<open>Numeric(10, 2)\<close>: a written value is rounded to two places (half
  away from zero) and must stay below \<open>10\<^sup>8\<close>; it is read back with exponent \<open>-2\<close>.
\<close>

definition rescale2 :: "Decimal \<Rightarrow> Decimal" where
  "rescale2 d =
     (if exponent d \<ge> - 2
      then d\<lparr>coefficient := coefficient d * 10 ^ nat (exponent d + 2), exponent := - 2\<rparr>
      else let k = nat (- 2 - exponent d)
           in d\<lparr>coefficient := (coefficient d + 5 * 10 ^ (k - 1)) div 10 ^ k, exponent := - 2\<rparr>)"

definition numeric_10_2 :: "Decimal \<Rightarrow> Decimal option" where
  "numeric_10_2 d = (let q = rescale2 d in if coefficient q < 10 ^ 10 then Some q else None)"

text \<open>
  \<^verbatim>\<open>db.add(row); db.commit(); db.refresh(row)\<close>: one INSERT.  The id comes from
  the sequence, \<^verbatim>\<open>created_at\<close> and \<^verbatim>\<open>updated_at\<close> from the server default
  \<^verbatim>\<open>now()\<close>.  A value that does not fit its column is a \<^verbatim>\<open>DataError\<close>; a name
  held by another row breaks \<^verbatim>\<open>unique=True\<close> and is an \<^verbatim>\<open>IntegrityError\<close>, after
  the sequence has moved.  A failed statement leaves the rows as they were,
  so the \<^verbatim>\<open>db.rollback()\<close> of the callers changes nothing further.
\<close>

definition add_commit_refresh ::
  "db \<Rightarrow> env \<Rightarrow> string \<Rightarrow> string option \<Rightarrow> Decimal \<Rightarrow> (exc + Product) \<times> db" where
  "add_commit_refresh d e n descr pr =
     (if event e = Failure then (Inl OperationalError, d)
      else if length n > 255 then (Inl DataError, d)
      else case numeric_10_2 pr of
        None \<Rightarrow> (Inl DataError, d)
      | Some q \<Rightarrow>
          let d1 = d\<lparr>id_seq := id_seq d + 1\<rparr> in
          if n \<in> set (map p_name (rows d)) \<or> n \<in> set (racing e)
          then (Inl IntegrityError, d1)
          else
            let r = \<lparr>p_id = id_seq d, p_name = n, p_description = descr, p_price = q,
                     p_created_at = now e, p_updated_at = now e\<rparr>
            in (Inr r, d1\<lparr>rows := rows d @ [r]\<rparr>))"

text \<open>
  \<^verbatim>\<open>db.commit(); db.refresh(row)\<close> after attribute assignments on a loaded row.
  The flush compares each attribute with its loaded value and writes only
  those with a net change (decimals compare by value); with none there is no
  UPDATE, and \<^verbatim>\<open>onupdate=func.now()\<close> fires only with an UPDATE.
\<close>

definition commit_refresh :: "db \<Rightarrow> env \<Rightarrow> Product \<Rightarrow> Product \<Rightarrow> (exc + Product) \<times> db" where
  "commit_refresh d e old new =
     (let name_changed = (p_name new \<noteq> p_name old);
          description_changed = (p_description new \<noteq> p_description old);
          price_changed = (dec_value (p_price new) \<noteq> dec_value (p_price old))
      in
      if event e = Failure then (Inl OperationalError, d)
      else if \<not> (name_changed \<or> description_changed \<or> price_changed) then (Inr old, d)
      else if name_changed \<and> length (p_name new) > 255 then (Inl DataError, d)
      else case (if price_changed then numeric_10_2 (p_price new) else Some (p_price old)) of
        None \<Rightarrow> (Inl DataError, d)
      | Some q \<Rightarrow>
          if name_changed \<and>
             (p_name new \<in> set (map p_name (filter (\<lambda>r. p_id r \<noteq> p_id old) (rows d)))
              \<or> p_name new \<in> set (racing e))
          then (Inl IntegrityError, d)
          else
            let r = old\<lparr>p_name := p_name new, p_description := p_description new,
                        p_price := q, p_updated_at := now e\<rparr>
            in (Inr r, d\<lparr>rows := map (\<lambda>x. if p_id x = p_id old then r else x) (rows d)\<rparr>))"

text \<open>\<^verbatim>\<open>db.delete(row); db.commit()\<close>.\<close>

definition delete_commit :: "db \<Rightarrow> env \<Rightarrow> Product \<Rightarrow> (exc + unit) \<times> db" where
  "delete_commit d e row =
     (if event e = Failure then (Inl OperationalError, d)
      else (Inr (), d\<lparr>rows := filter (\<lambda>r. p_id r \<noteq> p_id row) (rows d)\<rparr>))"


subsection \<open>Persistence operations (crud.py)\<close>

definition already_exists :: "string \<Rightarrow> exc" where
  "already_exists n =
     ProductAlreadyExistsError (''Product with name '' @ [CHR 0x27] @ n @ [CHR 0x27] @ '' already exists.'')"

definition crud_create_product :: "db \<Rightarrow> env \<Rightarrow> ProductCreate \<Rightarrow> (exc + Product) \<times> db" where
  "crud_create_product d e product =
     (case find (\<lambda>r. p_name r = c_name product) (rows d) of
        Some existing \<Rightarrow> (Inl (already_exists (c_name product)), d)
      | None \<Rightarrow>
          (case add_commit_refresh d e (c_name product) (c_description product) (c_price product) of
             (Inr db_product, d') \<Rightarrow> (Inr db_product, d')
           | (Inl ex, d') \<Rightarrow>
               if is_IntegrityError ex then (Inl (already_exists (c_name product)), d')
               else (Inl ex, d')))"


definition crud_get_product :: "db \<Rightarrow> int \<Rightarrow> Product option" where
  "crud_get_product d product_id = find (\<lambda>r. p_id r = product_id) (rows d)"

definition crud_update_product ::
  "db \<Rightarrow> env \<Rightarrow> int \<Rightarrow> ProductUpdate \<Rightarrow> (exc + Product option) \<times> db" where
  "crud_update_product d e product_id product_update =
     (case find (\<lambda>r. p_id r = product_id) (rows d) of
        None \<Rightarrow> (Inr None, d)
      | Some product \<Rightarrow>
          (case (case u_name product_update of
                   None \<Rightarrow> Inr product
                 | Some n \<Rightarrow>
                     (case find (\<lambda>r. p_name r = n \<and> p_id r \<noteq> product_id) (rows d) of
                        Some existing \<Rightarrow> Inl (already_exists n)
                      | None \<Rightarrow> Inr (product\<lparr>p_name := n\<rparr>))) of
             Inl ex \<Rightarrow> (Inl ex, d)
           | Inr product1 \<Rightarrow>
               let product2 = (case u_description product_update of
                                 None \<Rightarrow> product1
                               | Some v \<Rightarrow> product1\<lparr>p_description := Some v\<rparr>);
                   product3 = (case u_price product_update of
                                 None \<Rightarrow> product2
                               | Some v \<Rightarrow> product2\<lparr>p_price := v\<rparr>)
               in (case commit_refresh d e product product3 of
                     (Inr updated, d') \<Rightarrow> (Inr (Some updated), d')
                   | (Inl ex, d') \<Rightarrow>
                       if is_IntegrityError ex
                       then (Inl (already_exists (case u_name product_update of None \<Rightarrow> ''None'' | Some n \<Rightarrow> n)), d')
                       else (Inl ex, d'))))"

definition crud_delete_product :: "db \<Rightarrow> env \<Rightarrow> int \<Rightarrow> (exc + bool) \<times> db" where
  "crud_delete_product d e product_id =
     (case find (\<lambda>r. p_id r = product_id) (rows d) of
        None \<Rightarrow> (Inr False, d)
      | Some product \<Rightarrow>
          (case delete_commit d e product of
             (Inr _, d') \<Rightarrow> (Inr True, d')
           | (Inl ex, d') \<Rightarrow> (Inl ex, d')))"

subsection \<open>Route functions (main.py)\<close>

text \<open>
  Each route function returns its value or the exception that leaves it.
  \<^verbatim>\<open>except Exception\<close> catches whatever the \<^verbatim>\<open>try\<close> block raised, an
  \<^verbatim>\<open>HTTPException\<close> raised inside the block included.
\<close>

definition main_create_product :: "db \<Rightarrow> env \<Rightarrow> ProductCreate \<Rightarrow> (exc + Product) \<times> db" where
  "main_create_product d e product =
     (case crud_create_product d e product of
        (Inr db_product, d') \<Rightarrow> (Inr db_product, d')
      | (Inl ex, d') \<Rightarrow>
          if is_ProductAlreadyExistsError ex then (Inl (HTTPException 409 (str ex)), d')
          else (Inl (HTTPException 500 ''Failed to create product.''), d'))"


definition main_get_product :: "db \<Rightarrow> int \<Rightarrow> exc + Product" where
  "main_get_product d product_id =
     (case crud_get_product d product_id of
        None \<Rightarrow> Inl (HTTPException 404 ''Product not found.'')
      | Some product \<Rightarrow> Inr product)"

definition main_update_product ::
  "db \<Rightarrow> env \<Rightarrow> int \<Rightarrow> ProductUpdate \<Rightarrow> (exc + Product) \<times> db" where
  "main_update_product d e product_id product_update =
     (case crud_update_product d e product_id product_update of (r, d') \<Rightarrow>
        let try_block =
              (case r of
                 Inl ex \<Rightarrow> Inl ex
               | Inr None \<Rightarrow> Inl (HTTPException 404 ''Product not found.'')
               | Inr (Some updated_product) \<Rightarrow> Inr updated_product)
        in (case try_block of
              Inr updated_product \<Rightarrow> (Inr updated_product, d')
            | Inl ex \<Rightarrow> (Inl (HTTPException 500 ''Failed to update product.''), d')))"

definition main_delete_product :: "db \<Rightarrow> env \<Rightarrow> int \<Rightarrow> (exc + unit) \<times> db" where
  "main_delete_product d e product_id =
     (case crud_delete_product d e product_id of (r, d') \<Rightarrow>
        let try_block =
              (case r of
                 Inl ex \<Rightarrow> Inl ex
               | Inr deleted \<Rightarrow>
                   if \<not> deleted then Inl (HTTPException 404 ''Product not found.'') else Inr ())
        in (case try_block of
              Inr u \<Rightarrow> (Inr u, d')
            | Inl ex \<Rightarrow> (Inl (HTTPException 500 ''Failed to delete product.''), d')))"

subsection \<open>Requests and responses\<close>

datatype body =
    JProduct Product
  | JProducts "Product list"
  | JDetail string
  | JErrors "validation_error list"
  | JEmpty

record response =
  status :: nat
  content :: body

text \<open>
  What the framework sends for the outcome of a route function: the route's
  success status with the value, the status and detail of an \<^verbatim>\<open>HTTPException\<close>,
  the registered handler's answer for a \<^verbatim>\<open>SQLAlchemyError\<close>, and 500 otherwise.
  A returned row is rendered as it is stored: the response schema repeats the
  field rules of the request schema, which rows written through the
  operations above meet.
\<close>

definition respond :: "nat \<Rightarrow> ('a \<Rightarrow> body) \<Rightarrow> exc + 'a \<Rightarrow> response" where
  "respond ok render r =
     (case r of
        Inr v \<Rightarrow> \<lparr>status = ok, content = render v\<rparr>
      | Inl (HTTPException s detail) \<Rightarrow> \<lparr>status = s, content = JDetail detail\<rparr>
      | Inl ex \<Rightarrow>
          if is_SQLAlchemyError ex then \<lparr>status = 500, content = JDetail ''Internal database error.''\<rparr>
          else \<lparr>status = 500, content = JDetail ''Internal Server Error''\<rparr>)"

definition unprocessable :: "validation_error list \<Rightarrow> response" where
  "unprocessable errs = \<lparr>status = 422, content = JErrors errs\<rparr>"

text \<open>The five endpoints: the body is parsed into the schema before the route function runs.\<close>

definition POST_products :: "db \<Rightarrow> env \<Rightarrow> payload \<Rightarrow> response \<times> db" where
  "POST_products d e j =
     (case parse_ProductCreate j of
        Inl errs \<Rightarrow> (unprocessable errs, d)
      | Inr product \<Rightarrow>
          (case main_create_product d e product of (r, d') \<Rightarrow> (respond 201 JProduct r, d')))"


definition GET_product :: "db \<Rightarrow> int \<Rightarrow> response" where
  "GET_product d product_id = respond 200 JProduct (main_get_product d product_id)"

definition PUT_product :: "db \<Rightarrow> env \<Rightarrow> int \<Rightarrow> payload \<Rightarrow> response \<times> db" where
  "PUT_product d e product_id j =
     (case parse_ProductUpdate j of
        Inl errs \<Rightarrow> (unprocessable errs, d)
      | Inr product_update \<Rightarrow>
          (case main_update_product d e product_id product_update of
             (r, d') \<Rightarrow> (respond 200 JProduct r, d')))"

definition DELETE_product :: "db \<Rightarrow> env \<Rightarrow> int \<Rightarrow> response \<times> db" where
  "DELETE_product d e product_id =
     (case main_delete_product d e product_id of
        (r, d') \<Rightarrow> (respond 204 (\<lambda>_. JEmpty) r, d'))"

subsection \<open>Concrete tables and requests\<close>

definition price_1_00 :: Decimal where
  "price_1_00 = \<lparr>negative = False, coefficient = 100, exponent = - 2\<rparr>"

definition price_2_00 :: Decimal where
  "price_2_00 = \<lparr>negative = False, coefficient = 200, exponent = - 2\<rparr>"

definition first_product :: Product where
  "first_product = \<lparr>p_id = 1, p_name = ''First Product'', p_description = Some ''First'',
                     p_price = price_1_00, p_created_at = 10, p_updated_at = 10\<rparr>"

definition second_product :: Product where
  "second_product = \<lparr>p_id = 2, p_name = ''Second Product'', p_description = Some ''Second'',
                      p_price = price_2_00, p_created_at = 20, p_updated_at = 20\<rparr>"

definition two_products :: db where
  "two_products = \<lparr>rows = [first_product, second_product], id_seq = 3\<rparr>"

definition empty_db :: db where
  "empty_db = \<lparr>rows = [], id_seq = 1\<rparr>"

definition quiet :: "nat \<Rightarrow> env" where
  "quiet t = \<lparr>now = t, event = Quiet\<rparr>"

definition race_for :: "string \<Rightarrow> nat \<Rightarrow> env" where
  "race_for n t = \<lparr>now = t, event = Racing [n]\<rparr>"


definition price_5 :: Decimal where
  "price_5 = \<lparr>negative = False, coefficient = 5, exponent = 0\<rparr>"

definition price_9_99 :: Decimal where
  "price_9_99 = \<lparr>negative = False, coefficient = 999, exponent = - 2\<rparr>"



definition no_fields :: payload where
  "no_fields = \<lparr>j_name = Absent, j_description = Absent, j_price = Absent\<rparr>"

definition padded_first :: payload where
  "padded_first =
     \<lparr>j_name = Given ''  First Product '', j_description = Null, j_price = Given price_5\<rparr>"

definition widget :: payload where
  "widget = \<lparr>j_name = Given ''Widget'', j_description = Absent, j_price = Given price_9_99\<rparr>"



definition only_price :: "Decimal \<Rightarrow> payload" where
  "only_price v = \<lparr>j_name = Absent, j_description = Absent, j_price = Given v\<rparr>"


definition second_repriced :: Product where
  "second_repriced = second_product\<lparr>p_price := price_9_99, p_updated_at := 30\<rparr>"

definition only_name :: "string \<Rightarrow> payload" where
  "only_name n = \<lparr>j_name = Given n, j_description = Absent, j_price = Absent\<rparr>"

subsection \<open>The price rule as the specification words it\<close>


section \<open>Properties\<close>

subsection \<open>Evaluation rules\<close>

lemmas parse_defs =
  parse_ProductCreate_def parse_ProductUpdate_def required_def optional_def constr_def
  strip_def isspace_def optional_description_def description_length_def errors_of_def
  condecimal_def dec_value_def digits_decimals_def num_digits.simps

lemmas example_defs =
  first_product_def second_product_def two_products_def empty_db_def quiet_def
  price_1_00_def price_2_00_def

subsection \<open>Digit counts and the price constraint\<close>

lemma num_digits_pos: "0 < num_digits n"
  by (subst num_digits.simps) simp

lemma num_digits_upper: "n < 10 ^ num_digits n"
proof (induction n rule: num_digits.induct)
  case (1 n)
  show ?case
  proof (cases "n < 10")
    case True
    then show ?thesis by (simp add: num_digits.simps)
  next
    case False
    with 1 have "n div 10 < 10 ^ num_digits (n div 10)" by simp
    then have "n < 10 * 10 ^ num_digits (n div 10)" by simp
    with False show ?thesis by (subst num_digits.simps) simp
  qed
qed

lemma num_digits_lower: "0 < n \<Longrightarrow> 10 ^ (num_digits n - 1) \<le> n"
proof (induction n rule: num_digits.induct)
  case (1 n)
  show ?case
  proof (cases "n < 10")
    case True
    with 1 show ?thesis by (simp add: num_digits.simps)
  next
    case False
    then have pos: "0 < n div 10" by simp
    with False 1 have "10 ^ (num_digits (n div 10) - 1) \<le> n div 10" by simp
    then have "10 * 10 ^ (num_digits (n div 10) - 1) \<le> n" by simp
    moreover have "num_digits n = Suc (num_digits (n div 10))"
      using False by (subst num_digits.simps) simp
    moreover obtain m where "num_digits (n div 10) = Suc m"
      using num_digits_pos [of "n div 10"] by (cases "num_digits (n div 10)") auto
    ultimately show ?thesis by simp
  qed
qed

lemma dec_value_pos: "(0 < dec_value v) = (\<not> negative v \<and> 0 < coefficient v)"
  by (auto simp: dec_value_def zero_less_mult_iff mult_less_0_iff)

lemma num_digits_le_iff: "0 < n \<Longrightarrow> (num_digits n \<le> k) = (n < 10 ^ k)"
proof
  assume "num_digits n \<le> k"
  then have "(10::nat) ^ num_digits n \<le> 10 ^ k" by (simp add: power_increasing)
  with num_digits_upper [of n] show "n < 10 ^ k" by linarith
next
  assume "0 < n" and "n < 10 ^ k"
  with num_digits_lower [of n] have "(10::nat) ^ (num_digits n - 1) < 10 ^ k" by linarith
  then have "num_digits n - 1 < k" by simp
  then show "num_digits n \<le> k" by simp
qed

lemma digits_decimals_accept:
  assumes pos: "0 < coefficient v"
  shows "(case digits_decimals v of (digits, decimals) \<Rightarrow>
            digits \<le> 10 \<and> decimals \<le> 2 \<and> digits - decimals \<le> 8)
         = (- 2 \<le> exponent v \<and> coefficient (rescale2 v) < 10 ^ 10)"
proof -
  let ?c = "coefficient v" and ?e = "exponent v"
  consider (nonneg) "0 \<le> ?e" | (one) "?e = - 1" | (two) "?e = - 2" | (more) "?e < - 2"
    by linarith
  then show ?thesis
  proof cases
    case nonneg
    have r: "coefficient (rescale2 v) = ?c * 10 ^ nat ?e * 100"
      using nonneg by (simp add: rescale2_def nat_add_distrib power_add)
    show ?thesis
    proof (cases "nat ?e \<le> 8")
      case True
      have "(?c * 10 ^ nat ?e < 10 ^ 8) = (?c * 10 ^ nat ?e < 10 ^ (8 - nat ?e) * 10 ^ nat ?e)"
        using True by (simp add: power_add [symmetric])
      also have "\<dots> = (?c < 10 ^ (8 - nat ?e))" by simp
      also have "\<dots> = (num_digits ?c \<le> 8 - nat ?e)"
        using pos by (simp add: num_digits_le_iff)
      finally have "(?c * 10 ^ nat ?e < 10 ^ 8) = (num_digits ?c + nat ?e \<le> 8)"
        using True by auto
      then show ?thesis using nonneg r by (auto simp: digits_decimals_def)
    next
      case False
      then have "(10::nat) ^ 9 \<le> 10 ^ nat ?e" by (intro power_increasing) auto
      moreover have "(10::nat) ^ nat ?e \<le> ?c * 10 ^ nat ?e" using pos by simp
      ultimately have "(10::nat) ^ 9 \<le> ?c * 10 ^ nat ?e" by (rule order_trans)
      then have "\<not> ?c * 10 ^ nat ?e < 10 ^ 8" by simp
      then show ?thesis using nonneg r False by (auto simp: digits_decimals_def)
    qed
  next
    case one
    have r: "coefficient (rescale2 v) = ?c * 10" using one by (simp add: rescale2_def)
    have "(?c * 10 < 10 ^ 10) = (?c < 10 ^ 9)" by simp
    also have "\<dots> = (num_digits ?c \<le> 9)" using pos by (simp add: num_digits_le_iff)
    finally show ?thesis
      using one r num_digits_pos [of ?c] by (auto simp: digits_decimals_def)
  next
    case two
    have r: "coefficient (rescale2 v) = ?c" using two by (simp add: rescale2_def)
    have "(?c < 10 ^ 10) = (num_digits ?c \<le> 10)" using pos by (simp add: num_digits_le_iff)
    then show ?thesis
      using two r num_digits_pos [of ?c] by (auto simp: digits_decimals_def)
  next
    case more
    then show ?thesis by (auto simp: digits_decimals_def)
  qed
qed

lemma condecimal_iff:
  "(condecimal v = Inr v) =
     (0 < dec_value v \<and> - 2 \<le> exponent v \<and> coefficient (rescale2 v) < 10 ^ 10)"
proof (cases "0 < dec_value v")
  case True
  then have "0 < coefficient v" by (simp add: dec_value_pos)
  from digits_decimals_accept [OF this] True show ?thesis
    by (auto simp: condecimal_def split: prod.splits)
next
  case False
  then show ?thesis by (simp add: condecimal_def)
qed

lemma condecimal_Inr: "condecimal v = Inr w \<Longrightarrow> w = v"
  by (auto simp: condecimal_def split: if_splits prod.splits)

lemma rescale2_value: "- 2 \<le> exponent v \<Longrightarrow> dec_value (rescale2 v) = dec_value v"
proof -
  assume a: "- 2 \<le> exponent v"
  consider (nonneg) "0 \<le> exponent v" | (one) "exponent v = - 1" | (two) "exponent v = - 2"
    using a by linarith
  then show ?thesis
  proof cases
    case nonneg
    then show ?thesis
      by (simp add: rescale2_def dec_value_def nat_add_distrib power_add)
  next
    case one
    then show ?thesis by (simp add: rescale2_def dec_value_def)
  next
    case two
    then show ?thesis by (simp add: rescale2_def dec_value_def)
  qed
qed





subsection \<open>Reads, parsed bodies and the store's writes\<close>

lemma find_SomeD: "find P xs = Some r \<Longrightarrow> r \<in> set xs \<and> P r"
  by (induction xs) (auto split: if_splits)

lemma constr_Inr: "constr v = Inr s \<Longrightarrow> s = strip v \<and> 1 \<le> length s \<and> length s \<le> 255"
  by (auto simp: constr_def Let_def Suc_le_eq split: if_splits)

lemma required_Inr: "required f x = Inr w \<Longrightarrow> \<exists>v. x = Given v \<and> f v = Inr w"
  by (cases x) (simp_all add: required_def)

lemma parse_ProductCreate_fields:
  assumes "parse_ProductCreate j = Inr p"
  shows "required constr (j_name j) = Inr (c_name p)"
    and "optional_description (j_description j) = Inr (c_description p)"
    and "required condecimal (j_price j) = Inr (c_price p)"
  using assms
  by (cases "required constr (j_name j)"; cases "optional_description (j_description j)";
      cases "required condecimal (j_price j)"; simp add: parse_ProductCreate_def; fastforce)+

lemma parse_ProductCreate_Inr:
  assumes ok: "parse_ProductCreate j = Inr p"
  shows "\<exists>v. j_name j = Given v \<and> c_name p = strip v"
    and "1 \<le> length (c_name p)" and "length (c_name p) \<le> 255"
    and "j_price j = Given (c_price p)" and "condecimal (c_price p) = Inr (c_price p)"
proof -
  from required_Inr [OF parse_ProductCreate_fields(1) [OF ok]] obtain v
    where v: "j_name j = Given v" "constr v = Inr (c_name p)"
    by (elim exE conjE)
  from constr_Inr [OF v(2)] v(1)
  show "\<exists>v. j_name j = Given v \<and> c_name p = strip v"
    and "1 \<le> length (c_name p)" and "length (c_name p) \<le> 255"
    by auto
  from required_Inr [OF parse_ProductCreate_fields(3) [OF ok]] obtain w
    where w: "j_price j = Given w" "condecimal w = Inr (c_price p)"
    by (elim exE conjE)
  from condecimal_Inr [OF w(2)] w
  show "j_price j = Given (c_price p)" and "condecimal (c_price p) = Inr (c_price p)"
    by auto
qed

lemma numeric_10_2_valid: "condecimal v = Inr v \<Longrightarrow> numeric_10_2 v = Some (rescale2 v)"
  by (simp add: condecimal_iff numeric_10_2_def)

lemma add_commit_refresh_race:
  assumes "event e = Racing ns" and "n \<in> set ns" and "length n \<le> 255"
    and "condecimal pr = Inr pr"
  shows "add_commit_refresh d e n descr pr = (Inl IntegrityError, d\<lparr>id_seq := id_seq d + 1\<rparr>)"
  using assms by (simp add: add_commit_refresh_def numeric_10_2_valid racing_def)


lemma precheck_miss:
  "n \<notin> set (map p_name xs) \<Longrightarrow> find (\<lambda>r. p_name r = n) xs = None"
  by (auto simp: find_None_iff)

lemma precheck_hit:
  "n \<in> set (map p_name xs) \<Longrightarrow> \<exists>existing. find (\<lambda>r. p_name r = n) xs = Some existing"
  by (induction xs) auto

lemma crud_get_product_SomeD: "crud_get_product d i = Some r \<Longrightarrow> r \<in> set (rows d) \<and> p_id r = i"
  unfolding crud_get_product_def by (drule find_SomeD) simp

lemma commit_refresh_unchanged: "event e \<noteq> Failure \<Longrightarrow> commit_refresh d e old old = (Inr old, d)"
  by (simp add: commit_refresh_def)

lemma precheck_update_hit:
  "other \<in> set xs \<Longrightarrow> p_name other = n \<Longrightarrow> p_id other \<noteq> i \<Longrightarrow>
   \<exists>existing. find (\<lambda>r. p_name r = n \<and> p_id r \<noteq> i) xs = Some existing"
  by (induction xs) auto

lemma precheck_update_own:
  assumes "distinct (map p_name xs)" and "r \<in> set xs" and "p_id r = i"
  shows "find (\<lambda>x. p_name x = p_name r \<and> p_id x \<noteq> i) xs = None"
proof -
  have "x = r" if "x \<in> set xs" "p_name x = p_name r" for x
    using assms(1,2) that by (meson distinct_map inj_onD)
  with assms(3) show ?thesis by (auto simp: find_None_iff)
qed

lemma commit_refresh_same_name:
  assumes "event e \<noteq> Failure" and "p_name new = p_name old"
    and "dec_value (p_price new) \<noteq> dec_value (p_price old) \<longrightarrow> condecimal (p_price new) = Inr (p_price new)"
  shows "\<exists>r' d'. commit_refresh d e old new = (Inr r', d') \<and> p_name r' = p_name old"
  using assms by (auto simp: commit_refresh_def Let_def numeric_10_2_valid)

lemma parse_ProductUpdate_fields:
  assumes "parse_ProductUpdate j = Inr u"
  shows "optional constr (j_name j) = Inr (u_name u)"
    and "optional_description (j_description j) = Inr (u_description u)"
    and "optional condecimal (j_price j) = Inr (u_price u)"
  using assms
  by (cases "optional constr (j_name j)"; cases "optional_description (j_description j)";
      cases "optional condecimal (j_price j)"; simp add: parse_ProductUpdate_def; fastforce)+

lemma optional_Some: "optional f x = Inr (Some w) \<Longrightarrow> \<exists>v. x = Given v \<and> f v = Inr w"
  by (cases x) (auto simp: optional_def split: sum.splits)

lemma parse_ProductUpdate_price:
  assumes "parse_ProductUpdate j = Inr u" and "u_price u = Some v"
  shows "condecimal v = Inr v"
proof -
  from parse_ProductUpdate_fields(3) [OF assms(1)] assms(2)
  have "optional condecimal (j_price j) = Inr (Some v)" by simp
  from optional_Some [OF this] obtain w where "condecimal w = Inr v" by (elim exE conjE)
  with condecimal_Inr [OF this] show ?thesis by simp
qed

lemma find_replaced:
  "find (\<lambda>x. p_id x = i) xs = Some r \<Longrightarrow> p_id r' = i \<Longrightarrow>
   find (\<lambda>x. p_id x = i) (map (\<lambda>x. if p_id x = i then r' else x) xs) = Some r'"
  by (induction xs) (auto split: if_splits)

lemma commit_refresh_price:
  assumes "event e \<noteq> Failure" and "condecimal v = Inr v"
    and "dec_value v \<noteq> dec_value (p_price old)"
  shows "commit_refresh d e old (old\<lparr>p_price := v\<rparr>) =
     (Inr (old\<lparr>p_price := rescale2 v, p_updated_at := now e\<rparr>),
      d\<lparr>rows := map (\<lambda>x. if p_id x = p_id old
                             then old\<lparr>p_price := rescale2 v, p_updated_at := now e\<rparr> else x)
                     (rows d)\<rparr>)"
  using assms by (simp add: commit_refresh_def Let_def numeric_10_2_valid)

lemma commit_refresh_same_price:
  assumes "event e \<noteq> Failure" and "dec_value v = dec_value (p_price old)"
  shows "commit_refresh d e old (old\<lparr>p_price := v\<rparr>) = (Inr old, d)"
  using assms by (simp add: commit_refresh_def Let_def)

lemma parse_only_price:
  "condecimal v = Inr v \<Longrightarrow>
   parse_ProductUpdate (only_price v) = Inr \<lparr>u_name = None, u_description = None, u_price = Some v\<rparr>"
  by (simp add: only_price_def parse_ProductUpdate_def optional_def optional_description_def
      description_length_def)









subsection \<open>Price validation\<close>




subsection \<open>POST /products/\<close>

text \<open>
  C1.  A create request whose name, once stripped, is the name of an existing
  row fails with \<^verbatim>\<open>ProductAlreadyExistsError\<close> and stores no row.  When the
  pre-check read finds the row, nothing is written (the store is returned as
  it was, whatever the store would have done).  When the read misses it and a
  concurrent session holds the name, the insert's \<^verbatim>\<open>IntegrityError\<close> becomes
  the same error, and the rows are unchanged.  POST answers 409 both times.
\<close>

theorem create_existing_name_conflicts:
  assumes ok: "parse_ProductCreate j = Inr product"
  shows "(\<exists>v. j_name j = Given v \<and> c_name product = strip v)
    \<and> (c_name product \<in> set (map p_name (rows d)) \<longrightarrow>
         crud_create_product d e product = (Inl (already_exists (c_name product)), d) \<and>
         POST_products d e j =
           (\<lparr>status = 409, content = JDetail (str (already_exists (c_name product)))\<rparr>, d))
    \<and> (c_name product \<notin> set (map p_name (rows d)) \<longrightarrow> event e = Racing ns \<longrightarrow>
         c_name product \<in> set ns \<longrightarrow>
         (\<exists>d'. crud_create_product d e product = (Inl (already_exists (c_name product)), d') \<and>
               rows d' = rows d \<and>
               POST_products d e j =
                 (\<lparr>status = 409, content = JDetail (str (already_exists (c_name product)))\<rparr>, d')))"
proof (intro conjI impI)
  show "\<exists>v. j_name j = Given v \<and> c_name product = strip v"
    using parse_ProductCreate_Inr(1) [OF ok] .
next
  assume "c_name product \<in> set (map p_name (rows d))"
  then obtain existing where "find (\<lambda>r. p_name r = c_name product) (rows d) = Some existing"
    using precheck_hit by blast
  then show crud: "crud_create_product d e product = (Inl (already_exists (c_name product)), d)"
    by (auto simp: crud_create_product_def)
  show "POST_products d e j =
           (\<lparr>status = 409, content = JDetail (str (already_exists (c_name product)))\<rparr>, d)"
    by (simp add: POST_products_def ok main_create_product_def crud respond_def already_exists_def)
next
  assume fresh: "c_name product \<notin> set (map p_name (rows d))"
    and race: "event e = Racing ns" "c_name product \<in> set ns"
  have pre: "find (\<lambda>r. p_name r = c_name product) (rows d) = None"
    using fresh by (rule precheck_miss)
  have ins: "add_commit_refresh d e (c_name product) (c_description product) (c_price product) =
      (Inl IntegrityError, d\<lparr>id_seq := id_seq d + 1\<rparr>)"
    using race parse_ProductCreate_Inr(3,5) [OF ok] by (rule add_commit_refresh_race)
  have crud: "crud_create_product d e product =
      (Inl (already_exists (c_name product)), d\<lparr>id_seq := id_seq d + 1\<rparr>)"
    by (simp add: crud_create_product_def pre ins)
  have "POST_products d e j =
      (\<lparr>status = 409, content = JDetail (str (already_exists (c_name product)))\<rparr>,
       d\<lparr>id_seq := id_seq d + 1\<rparr>)"
    by (simp add: POST_products_def ok main_create_product_def crud respond_def already_exists_def)
  with crud show "\<exists>d'. crud_create_product d e product = (Inl (already_exists (c_name product)), d') \<and>
               rows d' = rows d \<and>
               POST_products d e j =
                 (\<lparr>status = 409, content = JDetail (str (already_exists (c_name product)))\<rparr>, d')"
    by auto
qed

theorem create_existing_name_conflicts_witness:
  "POST_products two_products (quiet 30) padded_first =
     (\<lparr>status = 409, content = JDetail (str (already_exists ''First Product''))\<rparr>, two_products)
   \<and> POST_products empty_db (race_for ''Widget'' 30) widget =
     (\<lparr>status = 409, content = JDetail (str (already_exists ''Widget''))\<rparr>,
      \<lparr>rows = [], id_seq = 2\<rparr>)"
proof -
  have p: "parse_ProductCreate padded_first =
      Inr \<lparr>c_name = ''First Product'', c_description = None, c_price = price_5\<rparr>"
    by (simp add: parse_defs padded_first_def price_5_def)
  have q: "parse_ProductCreate widget =
      Inr \<lparr>c_name = ''Widget'', c_description = None, c_price = price_9_99\<rparr>"
    by (simp add: parse_defs widget_def price_9_99_def)
  have m: "''First Product'' \<in> set (map p_name (rows two_products))"
    by (simp add: example_defs)
  from create_existing_name_conflicts [OF p, of two_products "quiet 30" "[]"] m
  have a: "POST_products two_products (quiet 30) padded_first =
     (\<lparr>status = 409, content = JDetail (str (already_exists ''First Product''))\<rparr>, two_products)"
    by simp
  from create_existing_name_conflicts [OF q, of empty_db "race_for ''Widget'' 30" "[''Widget'']"]
  obtain d' where "rows d' = []"
    and b: "POST_products empty_db (race_for ''Widget'' 30) widget =
     (\<lparr>status = 409, content = JDetail (str (already_exists ''Widget''))\<rparr>, d')"
    and c: "crud_create_product empty_db (race_for ''Widget'' 30)
      \<lparr>c_name = ''Widget'', c_description = None, c_price = price_9_99\<rparr> =
        (Inl (already_exists ''Widget''), d')"
    by (auto simp: empty_db_def race_for_def)
  have "crud_create_product empty_db (race_for ''Widget'' 30)
      \<lparr>c_name = ''Widget'', c_description = None, c_price = price_9_99\<rparr> =
        (Inl (already_exists ''Widget''), \<lparr>rows = [], id_seq = 2\<rparr>)"
    by (simp add: crud_create_product_def add_commit_refresh_def numeric_10_2_def rescale2_def
        racing_def Let_def empty_db_def race_for_def price_9_99_def)
  with c have "d' = \<lparr>rows = [], id_seq = 2\<rparr>" by simp
  with a b show ?thesis by simp
qed



subsection \<open>GET /products/\<close>




subsection \<open>Updates (crud.py)\<close>

text \<open>
  C4.  On an existing row, an update whose name is the name of a different
  row fails with \<^verbatim>\<open>ProductAlreadyExistsError\<close> and changes nothing.  An update
  whose name is the row's own name does not fail: the re-check leaves the row
  itself out, and no name is written (the update being a parsed body, the
  names of the table distinct, the store not failing).
\<close>

theorem update_name_uniqueness:
  assumes found: "crud_get_product d i = Some r"
  shows "(other \<in> set (rows d) \<and> p_id other \<noteq> i \<and> u_name u = Some (p_name other) \<longrightarrow>
            crud_update_product d e i u = (Inl (already_exists (p_name other)), d))
       \<and> (u_name u = Some (p_name r) \<and> parse_ProductUpdate j = Inr u \<and>
          distinct (map p_name (rows d)) \<and> event e \<noteq> Failure \<longrightarrow>
            (\<exists>r' d'. crud_update_product d e i u = (Inr (Some r'), d') \<and> p_name r' = p_name r))"
proof (intro conjI impI)
  have f: "find (\<lambda>r. p_id r = i) (rows d) = Some r"
    using found by (simp add: crud_get_product_def)
  {
    assume a: "other \<in> set (rows d) \<and> p_id other \<noteq> i \<and> u_name u = Some (p_name other)"
    then obtain existing
      where "find (\<lambda>r. p_name r = p_name other \<and> p_id r \<noteq> i) (rows d) = Some existing"
      using precheck_update_hit [of other "rows d" "p_name other" i] by auto
    with a show "crud_update_product d e i u = (Inl (already_exists (p_name other)), d)"
      by (simp add: crud_update_product_def f)
  }
  {
    assume a: "u_name u = Some (p_name r) \<and> parse_ProductUpdate j = Inr u \<and>
          distinct (map p_name (rows d)) \<and> event e \<noteq> Failure"
    from crud_get_product_SomeD [OF found] a
    have pre: "find (\<lambda>x. p_name x = p_name r \<and> p_id x \<noteq> i) (rows d) = None"
      by (intro precheck_update_own) auto
    let ?p2 = "case u_description u of None \<Rightarrow> r | Some v \<Rightarrow> r\<lparr>p_description := Some v\<rparr>"
    let ?p3 = "case u_price u of None \<Rightarrow> ?p2 | Some v \<Rightarrow> ?p2\<lparr>p_price := v\<rparr>"
    have n: "p_name ?p3 = p_name r" by (simp split: option.splits)
    have v: "dec_value (p_price ?p3) \<noteq> dec_value (p_price r) \<longrightarrow>
        condecimal (p_price ?p3) = Inr (p_price ?p3)"
      using a parse_ProductUpdate_price [of j u] by (auto split: option.splits)
    from a have "event e \<noteq> Failure" by simp
    from commit_refresh_same_name [OF this n v, of d]
    obtain r' d' where "commit_refresh d e r ?p3 = (Inr r', d')" "p_name r' = p_name r"
      by (elim exE conjE)
    with a show "\<exists>r' d'. crud_update_product d e i u = (Inr (Some r'), d') \<and> p_name r' = p_name r"
      by (simp add: crud_update_product_def f pre)
  }
qed

theorem update_name_uniqueness_witness:
  "crud_update_product two_products (quiet 30) 2
     \<lparr>u_name = Some ''First Product'', u_description = None, u_price = None\<rparr>
     = (Inl (already_exists ''First Product''), two_products)
   \<and> crud_update_product two_products (quiet 30) 2
     \<lparr>u_name = Some ''Second Product'', u_description = None, u_price = None\<rparr>
     = (Inr (Some second_product), two_products)"
proof -
  have found: "crud_get_product two_products 2 = Some second_product"
    by (simp add: crud_get_product_def example_defs)
  have p: "parse_ProductUpdate (only_name ''Second Product'') =
      Inr \<lparr>u_name = Some ''Second Product'', u_description = None, u_price = None\<rparr>"
    by (simp add: parse_defs only_name_def)
  have a: "crud_update_product two_products (quiet 30) 2
     \<lparr>u_name = Some ''First Product'', u_description = None, u_price = None\<rparr>
     = (Inl (already_exists ''First Product''), two_products)"
    using update_name_uniqueness [OF found, of first_product
        "\<lparr>u_name = Some ''First Product'', u_description = None, u_price = None\<rparr>" "quiet 30"]
    by (simp add: example_defs)
  from update_name_uniqueness [OF found, of first_product
        "\<lparr>u_name = Some ''Second Product'', u_description = None, u_price = None\<rparr>" "quiet 30"
        "only_name ''Second Product''"] p
  obtain r' d' where "crud_update_product two_products (quiet 30) 2
     \<lparr>u_name = Some ''Second Product'', u_description = None, u_price = None\<rparr> = (Inr (Some r'), d')"
    by (auto simp: example_defs)
  moreover have "crud_update_product two_products (quiet 30) 2
     \<lparr>u_name = Some ''Second Product'', u_description = None, u_price = None\<rparr>
     = (Inr (Some second_product), two_products)"
    by (simp add: crud_update_product_def commit_refresh_def Let_def example_defs)
  ultimately show ?thesis using a by simp
qed

text \<open>
  C6, as the specification states it: every update with only a price
  advances \<^verbatim>\<open>updated_at\<close>.  With the price the row already has nothing is
  written, and \<^verbatim>\<open>updated_at\<close> stays: the row updated at 20 still says 20 when
  the store's clock shows 30.
\<close>

theorem same_price_keeps_updated_at:
  "crud_update_product two_products (quiet 30) 2
     \<lparr>u_name = None, u_description = None, u_price = Some price_2_00\<rparr>
     = (Inr (Some second_product), two_products)
   \<and> p_updated_at second_product = 20 \<and> now (quiet 30) = 30"
  by (simp add: crud_update_product_def commit_refresh_def Let_def example_defs)

text \<open>
  C6, amended.  An update of an existing row with only a (valid) price whose
  value differs from the stored one, on a store that does not fail: name and
  description are unchanged, the price has the supplied value, \<^verbatim>\<open>updated_at\<close>
  is the store's timestamp of the update, strictly later than before whenever
  the store's clock has moved past the old value; the stored row is the
  returned one and PUT answers 200.  With a price of the same value the record
  is returned as it was.
\<close>

theorem update_price_only:
  assumes found: "crud_get_product d i = Some r" and valid: "condecimal v = Inr v"
    and store: "event e \<noteq> Failure"
  shows "(dec_value v \<noteq> dec_value (p_price r) \<longrightarrow>
           (\<exists>r' d'. crud_update_product d e i
                       \<lparr>u_name = None, u_description = None, u_price = Some v\<rparr> = (Inr (Some r'), d')
              \<and> PUT_product d e i (only_price v) = (\<lparr>status = 200, content = JProduct r'\<rparr>, d')
              \<and> crud_get_product d' i = Some r'
              \<and> p_name r' = p_name r \<and> p_description r' = p_description r
              \<and> dec_value (p_price r') = dec_value v
              \<and> p_updated_at r' = now e
              \<and> (p_updated_at r < now e \<longrightarrow> p_updated_at r < p_updated_at r')))
       \<and> (dec_value v = dec_value (p_price r) \<longrightarrow>
           crud_update_product d e i \<lparr>u_name = None, u_description = None, u_price = Some v\<rparr>
             = (Inr (Some r), d)
           \<and> PUT_product d e i (only_price v) = (\<lparr>status = 200, content = JProduct r\<rparr>, d))"
proof (intro conjI impI)
  have f: "find (\<lambda>r. p_id r = i) (rows d) = Some r"
    using found by (simp add: crud_get_product_def)
  have idr: "p_id r = i" using crud_get_product_SomeD [OF found] by simp
  note p = parse_only_price [OF valid]
  {
    assume ne: "dec_value v \<noteq> dec_value (p_price r)"
    let ?r = "r\<lparr>p_price := rescale2 v, p_updated_at := now e\<rparr>"
    let ?d = "d\<lparr>rows := map (\<lambda>x. if p_id x = i then ?r else x) (rows d)\<rparr>"
    have crud: "crud_update_product d e i
        \<lparr>u_name = None, u_description = None, u_price = Some v\<rparr> = (Inr (Some ?r), ?d)"
      using commit_refresh_price [OF store valid ne, of d] idr
      by (simp add: crud_update_product_def f)
    have put: "PUT_product d e i (only_price v) = (\<lparr>status = 200, content = JProduct ?r\<rparr>, ?d)"
      by (simp add: PUT_product_def p main_update_product_def crud respond_def)
    have get: "crud_get_product ?d i = Some ?r"
      using find_replaced [OF f, of ?r] idr by (simp add: crud_get_product_def)
    have "- 2 \<le> exponent v" using valid by (simp add: condecimal_iff)
    then have val: "dec_value (p_price ?r) = dec_value v" by (simp add: rescale2_value)
    show "\<exists>r' d'. crud_update_product d e i
                       \<lparr>u_name = None, u_description = None, u_price = Some v\<rparr> = (Inr (Some r'), d')
              \<and> PUT_product d e i (only_price v) = (\<lparr>status = 200, content = JProduct r'\<rparr>, d')
              \<and> crud_get_product d' i = Some r'
              \<and> p_name r' = p_name r \<and> p_description r' = p_description r
              \<and> dec_value (p_price r') = dec_value v
              \<and> p_updated_at r' = now e
              \<and> (p_updated_at r < now e \<longrightarrow> p_updated_at r < p_updated_at r')"
      using crud put get val by (intro exI [of _ ?r] exI [of _ ?d]) simp
  }
  {
    assume eq: "dec_value v = dec_value (p_price r)"
    show crud: "crud_update_product d e i \<lparr>u_name = None, u_description = None, u_price = Some v\<rparr>
             = (Inr (Some r), d)"
      using commit_refresh_same_price [OF store eq, of d]
      by (simp add: crud_update_product_def f)
    show "PUT_product d e i (only_price v) = (\<lparr>status = 200, content = JProduct r\<rparr>, d)"
      by (simp add: PUT_product_def p main_update_product_def crud respond_def)
  }
qed

theorem update_price_only_witness:
  "PUT_product two_products (quiet 30) 2 (only_price price_9_99) =
     (\<lparr>status = 200, content = JProduct second_repriced\<rparr>,
      \<lparr>rows = [first_product, second_repriced], id_seq = 3\<rparr>)
   \<and> p_name second_repriced = p_name second_product
   \<and> p_description second_repriced = p_description second_product
   \<and> p_updated_at second_product < p_updated_at second_repriced"
proof -
  have found: "crud_get_product two_products 2 = Some second_product"
    by (simp add: crud_get_product_def example_defs)
  have valid: "condecimal price_9_99 = Inr price_9_99"
    by (simp add: parse_defs price_9_99_def)
  have store: "event (quiet 30) \<noteq> Failure" by (simp add: quiet_def)
  have ne: "dec_value price_9_99 \<noteq> dec_value (p_price second_product)"
    by (simp add: dec_value_def price_9_99_def example_defs)
  from update_price_only [OF found valid store] ne
  obtain r' d' where put: "PUT_product two_products (quiet 30) 2 (only_price price_9_99) =
      (\<lparr>status = 200, content = JProduct r'\<rparr>, d')"
    and crud: "crud_update_product two_products (quiet 30) 2
      \<lparr>u_name = None, u_description = None, u_price = Some price_9_99\<rparr> = (Inr (Some r'), d')"
    by auto
  have "crud_update_product two_products (quiet 30) 2
      \<lparr>u_name = None, u_description = None, u_price = Some price_9_99\<rparr> =
      (Inr (Some second_repriced), \<lparr>rows = [first_product, second_repriced], id_seq = 3\<rparr>)"
    by (simp add: crud_update_product_def commit_refresh_def numeric_10_2_def rescale2_def
        dec_value_def racing_def Let_def second_repriced_def price_9_99_def example_defs)
  with crud have "r' = second_repriced" "d' = \<lparr>rows = [first_product, second_repriced], id_seq = 3\<rparr>"
    by simp_all
  with put show ?thesis by (simp add: second_repriced_def second_product_def)
qed

text \<open>
  C10.  An update of an existing row that supplies no field is no error on a
  store that does not fail: \<^verbatim>\<open>update_product\<close> returns the stored record as it
  is, \<^verbatim>\<open>updated_at\<close> included, the table is unchanged, and PUT answers 200
  with that record.
\<close>

theorem update_without_fields_is_identity:
  assumes found: "crud_get_product d i = Some r" and store: "event e \<noteq> Failure"
  shows "crud_update_product d e i \<lparr>u_name = None, u_description = None, u_price = None\<rparr>
           = (Inr (Some r), d)
       \<and> PUT_product d e i no_fields = (\<lparr>status = 200, content = JProduct r\<rparr>, d)"
proof -
  have f: "find (\<lambda>r. p_id r = i) (rows d) = Some r"
    using found by (simp add: crud_get_product_def)
  have crud: "crud_update_product d e i \<lparr>u_name = None, u_description = None, u_price = None\<rparr>
           = (Inr (Some r), d)"
    by (simp add: crud_update_product_def f commit_refresh_unchanged [OF store])
  have p: "parse_ProductUpdate no_fields = Inr \<lparr>u_name = None, u_description = None, u_price = None\<rparr>"
    by (simp add: no_fields_def parse_ProductUpdate_def optional_def optional_description_def
        description_length_def)
  show ?thesis
    by (simp add: crud PUT_product_def p main_update_product_def respond_def)
qed

theorem update_without_fields_is_identity_witness:
  "PUT_product two_products (quiet 30) 2 no_fields =
     (\<lparr>status = 200, content = JProduct second_product\<rparr>, two_products)"
proof -
  have "crud_get_product two_products 2 = Some second_product"
    by (simp add: crud_get_product_def example_defs)
  from update_without_fields_is_identity [OF this, of "quiet 30"]
  show ?thesis by (simp add: quiet_def)
qed




subsection \<open>PUT /products/{id}\<close>

text \<open>
  C2.  The claim: PUT answers 404 when no row has the id and 409 when the new
  name belongs to another row.  The route function raises its 404 inside the
  \<^verbatim>\<open>try\<close> block whose \<^verbatim>\<open>except Exception\<close> turns every exception into 500, and
  it has no clause for \<^verbatim>\<open>ProductAlreadyExistsError\<close>: on the requests of
  \<^verbatim>\<open>test_update_product_not_found\<close> and \<^verbatim>\<open>test_update_product_duplicate_name\<close>
  the status is 500 both times, and the table is untouched.
\<close>

theorem PUT_product_absent_and_conflict_give_500:
  "PUT_product empty_db (quiet 30) 999999 (only_name ''Nonexistent'') =
     (\<lparr>status = 500, content = JDetail ''Failed to update product.''\<rparr>, empty_db)
   \<and> PUT_product two_products (quiet 30) 2 (only_name ''First Product'') =
     (\<lparr>status = 500, content = JDetail ''Failed to update product.''\<rparr>, two_products)"
  by (simp add: PUT_product_def parse_defs main_update_product_def crud_update_product_def
      respond_def already_exists_def only_name_def example_defs)

subsection \<open>DELETE /products/{id}\<close>

text \<open>
  C3.  The claim: DELETE removes an existing row and answers 204 with an empty
  body, and answers 404 when no row has the id.  The 404 is raised inside the
  \<^verbatim>\<open>try\<close> block and caught by its \<^verbatim>\<open>except Exception\<close>: on the request of
  \<^verbatim>\<open>test_delete_product_not_found\<close> the status is 500.  Deleting an existing
  row does answer 204 and removes it.
\<close>

theorem DELETE_product_absent_gives_500:
  "DELETE_product empty_db (quiet 30) 999999 =
     (\<lparr>status = 500, content = JDetail ''Failed to delete product.''\<rparr>, empty_db)
   \<and> DELETE_product two_products (quiet 30) 2 =
     (\<lparr>status = 204, content = JEmpty\<rparr>, \<lparr>rows = [first_product], id_seq = 3\<rparr>)"
  by (simp add: DELETE_product_def main_delete_product_def crud_delete_product_def
      delete_commit_def respond_def example_defs)

end
